theory Spec2Isabelle
  imports Complex_Main "HOL-Library.Sublist"
begin

section \<open>Python values used by app.py\<close>

text \<open>
  A Python \<open>str\<close> is a sequence of Unicode code points, so it is modelled as a list of
  natural numbers. \<open>py\<close> turns an ASCII literal into such a list; characters beyond ASCII
  (the emoji of the labels) are written as their code point.
\<close>

type_synonym pystr = "nat list"

definition py :: "string \<Rightarrow> pystr" where
  "py s = map of_char s"

text \<open>\<open>s.startswith(p)\<close>.\<close>

definition startswith :: "pystr \<Rightarrow> pystr \<Rightarrow> bool" where
  "startswith s p = (take (length p) s = p)"

text \<open>\<open>sub in s\<close> on strings: \<open>sub\<close> occurs in \<open>s\<close> as a contiguous block.\<close>

fun isin :: "pystr \<Rightarrow> pystr \<Rightarrow> bool" where
  "isin sub [] = (sub = [])"
| "isin sub (c # cs) = (startswith (c # cs) sub \<or> isin sub cs)"

text \<open>
  \<open>str.isspace\<close> on one code point: the characters that \<open>str.strip()\<close> without an
  argument removes.
\<close>

definition isspace :: "nat \<Rightarrow> bool" where
  "isspace c = (c \<in> set [0x09, 0x0A, 0x0B, 0x0C, 0x0D, 0x1C, 0x1D, 0x1E, 0x1F, 0x20,
                         0x85, 0xA0, 0x1680,
                         0x2000, 0x2001, 0x2002, 0x2003, 0x2004, 0x2005, 0x2006,
                         0x2007, 0x2008, 0x2009, 0x200A,
                         0x2028, 0x2029, 0x202F, 0x205F, 0x3000])"

definition strip :: "pystr \<Rightarrow> pystr" where
  "strip s = rev (dropWhile isspace (rev (dropWhile isspace s)))"

text \<open>
  The \<open>content\<close> of a response chunk is any Python object. The loop only asks for its
  truth value, whether it is a \<open>str\<close>, and its \<open>str()\<close>; \<open>PyObj b r\<close> is an object
  that is neither \<open>None\<close> nor a \<open>str\<close>, with truth value \<open>b\<close> and \<open>str()\<close> equal
  to \<open>r\<close>.
\<close>

datatype pyval = PyNone | PyStr pystr | PyObj bool pystr

fun truthy :: "pyval \<Rightarrow> bool" where
  "truthy PyNone = False"
| "truthy (PyStr s) = (s \<noteq> [])"
| "truthy (PyObj b r) = b"

fun str :: "pyval \<Rightarrow> pystr" where
  "str PyNone = py ''None''"
| "str (PyStr s) = s"
| "str (PyObj b r) = r"

fun str_opt :: "pystr option \<Rightarrow> pystr" where
  "str_opt None = py ''None''"
| "str_opt (Some s) = s"

section \<open>Events, steps and the state of one run\<close>

text \<open>
  The tag of a chunk is compared with five values of the library's \<open>RunEvent\<close>
  enumeration; every other tag is \<open>other_event\<close>.
\<close>

datatype RunEvent =
  run_started | tool_call_started | tool_call_completed | run_response | run_completed
  | other_event

text \<open>
  A tool invocation is a dictionary; the loop reads its key \<open>function_name\<close> with
  \<open>get\<close>, which gives \<open>None\<close> for a missing key. The values are strings, as they are in
  a well-formed event.
\<close>

type_synonym tool = "pystr \<rightharpoonup> pystr"

record RunResponse =
  event :: RunEvent
  content :: pyval
  run_id :: "pystr option"
  tools :: "tool list option"

text \<open>What the stream yields: a \<open>RunResponse\<close>, or an object of another class.\<close>

datatype chunk = Response RunResponse | NotRunResponse

text \<open>
  The stream is a generator: each pull yields a chunk or raises. \<open>Exception msg\<close> is an
  instance of Python's \<open>Exception\<close> whose \<open>str()\<close> is \<open>msg\<close>.
\<close>

datatype exn = Exception pystr

datatype item = Yield chunk | Raise exn

datatype step_type = info | delegation | success

record step =
  icon :: pystr
  title :: pystr
  content :: pystr
  type :: step_type

text \<open>
  The calls made on the presentation framework, in the order they are made. The
  re-rendering of the step list after an event is one entry, \<open>steps_render\<close>, carrying
  the list that is rendered; the expanders it is made of are not modelled. The values
  given to the progress bar (\<open>0.1\<close>, \<open>min(step_count / 10, 0.9)\<close>, ...) are kept as
  exact fractions. \<open>st_download_button label data file_name\<close> offers the report.
\<close>

datatype ui_call =
    st_progress rat
  | progress_bar_progress rat
  | status_text_info pystr
  | status_text_success pystr
  | steps_render "step list"
  | status_container_empty
  | st_markdown pystr
  | st_download_button pystr pystr pystr
  | st_info pystr
  | st_warning pystr
  | st_error pystr
  | st_exception exn
  | st_stop

record run_state =
  execution_steps :: "step list"
  step_count :: nat
  current_agent :: "pystr option"
  full_content :: pystr
  run_id :: "pystr option"
  ui :: "ui_call list"

section \<open>Helper functions\<close>

definition agent_map :: "(pystr \<times> pystr) list" where
  "agent_map =
    [(py ''transfer_task_to_task_analyzer'', 0x1F4CA # py '' Task Analyzer''),
     (py ''transfer_task_to_incident_analyzer'', 0x1F50D # py '' Incident Analyzer''),
     (py ''transfer_task_to_ticket_creation'', 0x1F3AB # py '' Ticket Creation''),
     (py ''transfer_task_to_root_cause_analysis'', 0x1F52C # py '' Root Cause Analysis''),
     (py ''transfer_task_to_resolution_discovery'', 0x1F4A1 # py '' Resolution Discovery'')]"

definition get_agent_name_from_function :: "pystr \<Rightarrow> pystr" where
  "get_agent_name_from_function function_name =
     (case map_of agent_map function_name of
        Some label \<Rightarrow> label
      | None \<Rightarrow> 0x1F916 # py '' Agent'')"

section \<open>The body of the run loop\<close>

definition render :: "run_state \<Rightarrow> run_state" where
  "render st = st\<lparr>ui := ui st @ [steps_render (execution_steps st)]\<rparr>"

definition on_run_started :: "run_state \<Rightarrow> run_state" where
  "on_run_started st =
     render (st\<lparr>
       step_count := step_count st + 1,
       ui := ui st @ [progress_bar_progress (1 / 10),
                      status_text_info (0x1F680 # py '' Orchestrator analyzing request'')],
       execution_steps := execution_steps st @
         [\<lparr>icon = [0x1F680],
           title = py ''Orchestrator Started'',
           content = py ''Analyzing incident and determining workflow'',
           type = info\<rparr>]\<rparr>)"

definition on_tool_call_started :: "run_state \<Rightarrow> RunResponse \<Rightarrow> run_state" where
  "on_tool_call_started st response_chunk =
     (case tools response_chunk of
        None \<Rightarrow> st
      | Some ts \<Rightarrow>
          if ts = [] then st
          else
            (case (last ts) (py ''function_name'') of
               None \<Rightarrow> st
             | Some function_name \<Rightarrow>
                 if function_name = [] then st
                 else if \<not> startswith function_name (py ''transfer_task_to_'') then st
                 else
                   (let agent = get_agent_name_from_function function_name;
                        n = step_count st + 1
                    in render (st\<lparr>
                         current_agent := Some agent,
                         step_count := n,
                         ui := ui st @
                           [progress_bar_progress (min (of_nat n / 10) (9 / 10)),
                            status_text_info (0x1F504 # py '' Delegating to '' @ agent)],
                         execution_steps := execution_steps st @
                           [\<lparr>icon = [0x1F504],
                             title = py ''Delegating to '' @ agent,
                             content = py ''Task transferred successfully'',
                             type = delegation\<rparr>]\<rparr>))))"

text \<open>
  The \<open>for key in [...]\<close> loop of the completion branch: the label of the first key
  that occurs in the content, \<open>None\<close> when no key does.
\<close>

definition keys :: "pystr list" where
  "keys = [py ''task_analyzer'', py ''incident_analyzer'', py ''ticket_creation'',
           py ''root_cause_analysis'', py ''resolution_discovery'']"

fun first_key :: "pystr list \<Rightarrow> pystr \<Rightarrow> pystr option" where
  "first_key [] content_str = None"
| "first_key (key # rest) content_str =
     (if isin key content_str
      then Some (get_agent_name_from_function (py ''transfer_task_to_'' @ key))
      else first_key rest content_str)"

definition detect_agent :: "pystr \<Rightarrow> pystr option" where
  "detect_agent content_str =
     (if isin (py ''transfer_task_to_'') content_str then first_key keys content_str
      else None)"

text \<open>\<open>a or b or c\<close> on optional strings: the first that is neither \<open>None\<close> nor empty.\<close>

fun or_else :: "pystr option \<Rightarrow> pystr \<Rightarrow> pystr" where
  "or_else None d = d"
| "or_else (Some s) d = (if s = [] then d else s)"

definition on_tool_call_completed :: "run_state \<Rightarrow> RunResponse \<Rightarrow> run_state" where
  "on_tool_call_completed st response_chunk =
     (if \<not> truthy (RunResponse.content response_chunk) then st
      else
        (let content_str = str (RunResponse.content response_chunk);
             detected_agent = detect_agent content_str;
             agent_name =
               or_else detected_agent (or_else (current_agent st) (0x1F916 # py '' Agent''));
             n = step_count st + 1
         in render (st\<lparr>
              step_count := n,
              ui := ui st @ [progress_bar_progress (min (of_nat n / 10) (95 / 100))],
              execution_steps := execution_steps st @
                [\<lparr>icon = [0x2705],
                  title = agent_name @ py '' - Completed'',
                  content = content_str,
                  type = success\<rparr>],
              current_agent := None\<rparr>)))"

definition on_run_response :: "run_state \<Rightarrow> RunResponse \<Rightarrow> run_state" where
  "on_run_response st response_chunk =
     render (case RunResponse.content response_chunk of
               PyStr s \<Rightarrow> st\<lparr>full_content := full_content st @ s\<rparr>
             | _ \<Rightarrow> st)"

definition on_run_completed :: "run_state \<Rightarrow> run_state" where
  "on_run_completed st =
     render (st\<lparr>
       ui := ui st @ [progress_bar_progress 1,
                      status_text_success (0x2728 # py '' Workflow completed successfully'')],
       execution_steps := execution_steps st @
         [\<lparr>icon = [0x2728],
           title = py ''Orchestration Completed'',
           content = py ''All agents finished successfully'',
           type = success\<rparr>]\<rparr>)"

text \<open>
  One iteration of \<open>for response_chunk in response_stream\<close>. A \<open>continue\<close> leaves the
  iteration before the step list is rendered again.
\<close>

definition process :: "run_state \<Rightarrow> chunk \<Rightarrow> run_state" where
  "process st c =
     (case c of
        NotRunResponse \<Rightarrow> st
      | Response response_chunk \<Rightarrow>
          (let st1 = st\<lparr>run_id := RunResponse.run_id response_chunk\<rparr>
           in case event response_chunk of
                run_started \<Rightarrow> on_run_started st1
              | tool_call_started \<Rightarrow> on_tool_call_started st1 response_chunk
              | tool_call_completed \<Rightarrow> on_tool_call_completed st1 response_chunk
              | run_response \<Rightarrow> on_run_response st1 response_chunk
              | run_completed \<Rightarrow> on_run_completed st1
              | other_event \<Rightarrow> render st1))"

text \<open>
  The loop over the stream. It ends when the stream is exhausted or when a pull raises;
  the result is the state reached and the exception, if any.
\<close>

fun consume :: "run_state \<Rightarrow> item list \<Rightarrow> run_state \<times> exn option" where
  "consume st [] = (st, None)"
| "consume st (Raise e # rest) = (st, Some e)"
| "consume st (Yield c # rest) = consume (process st c) rest"

section \<open>The handler of the run button\<close>

definition user_input :: "pystr \<Rightarrow> pystr \<Rightarrow> pystr \<Rightarrow> pystr" where
  "user_input email_from email_subject email_body =
     py ''reported by '' @ email_from @ py '' Subject: '' @ email_subject
       @ [0x0A, 0x0A] @ email_body"

definition initial_state :: run_state where
  "initial_state =
     \<lparr>execution_steps = [], step_count = 0, current_agent = None, full_content = [],
      run_id = None,
      ui = [st_progress 0, st_markdown (py ''## '' @ 0x1F4CB # py '' Execution Steps'')]\<rparr>"

definition final_report :: "run_state \<Rightarrow> ui_call list" where
  "final_report st =
     [st_markdown (py ''---''),
      st_markdown (py ''## '' @ 0x2705 # py '' Final ITSM Report'')] @
     (if full_content st \<noteq> []
      then [st_markdown (full_content st),
            st_download_button (0x1F4E5 # py '' Download Report'') (full_content st)
              (py ''itsm_report_'' @ str_opt (run_state.run_id st) @ py ''.md'')]
      else [st_info (py ''No final content generated'')])"

fun exn_str :: "exn \<Rightarrow> pystr" where
  "exn_str (Exception msg) = msg"

text \<open>
  What one press of the button does: the prompts handed to \<open>Sister.run\<close>, the local
  variables of the \<open>try\<close> block where it was entered, and every call made on the
  presentation framework. \<open>Sister_run\<close> is the external agent: the stream it produces
  for a prompt.
\<close>

record outcome =
  agent_runs :: "pystr list"
  locals :: "run_state option"
  screen :: "ui_call list"

definition run_button ::
  "(pystr \<Rightarrow> item list) \<Rightarrow> pystr \<Rightarrow> pystr \<Rightarrow> pystr \<Rightarrow> outcome" where
  "run_button Sister_run email_from email_subject email_body =
     (if strip email_subject = [] \<and> strip email_body = []
      then \<lparr>agent_runs = [], locals = None,
            screen = [st_warning ([0x26A0, 0xFE0F] @ py '' Please enter incident details''),
                      st_stop]\<rparr>
      else
        (let prompt = user_input email_from email_subject email_body
         in case consume initial_state (Sister_run prompt) of
              (st, None) \<Rightarrow>
                \<lparr>agent_runs = [prompt], locals = Some st,
                 screen = ui st @ [status_container_empty] @ final_report st\<rparr>
            | (st, Some e) \<Rightarrow>
                \<lparr>agent_runs = [prompt], locals = Some st,
                 screen = ui st @
                   [status_container_empty,
                    st_error (0x274C # py '' Error: '' @ exn_str e),
                    st_exception e]\<rparr>))"

section \<open>What the status container shows\<close>

text \<open>
  \<open>status_container\<close> is made by \<open>st.container()\<close>; inside it the handler creates the
  progress bar with \<open>st.progress(0)\<close> and the placeholder \<open>status_text\<close>. The framework
  is not part of the repository; the following is its documented behaviour. Setting the
  progress bar or writing into \<open>status_text\<close> replaces what that element shows.
  \<open>empty()\<close> called on a container inserts one more empty placeholder into it and leaves
  the elements it already holds.
\<close>

record status_view =
  bar :: "rat option"
  status :: "pystr option"
  placeholders :: nat

fun show_call :: "status_view \<Rightarrow> ui_call \<Rightarrow> status_view" where
  "show_call v (st_progress p) = v\<lparr>bar := Some p\<rparr>"
| "show_call v (progress_bar_progress p) = v\<lparr>bar := Some p\<rparr>"
| "show_call v (status_text_info msg) = v\<lparr>status := Some msg\<rparr>"
| "show_call v (status_text_success msg) = v\<lparr>status := Some msg\<rparr>"
| "show_call v status_container_empty = v\<lparr>placeholders := placeholders v + 1\<rparr>"
| "show_call v call = v"

definition status_container_after :: "ui_call list \<Rightarrow> status_view" where
  "status_container_after calls =
     foldl show_call \<lparr>bar = None, status = None, placeholders = 0\<rparr> calls"

section \<open>Notions used to state the properties\<close>

text \<open>The chunks the loop receives from a stream: those yielded before the first raise.\<close>

fun pulled :: "item list \<Rightarrow> chunk list" where
  "pulled [] = []"
| "pulled (Raise e # rest) = []"
| "pulled (Yield c # rest) = c # pulled rest"

text \<open>
  The filters of the projector's contract, in the specification's words: every
  \<open>run_started\<close>; every \<open>tool_call_started\<close> with a non-empty tools list whose last
  tool has a function name starting with the delegation prefix; every
  \<open>tool_call_completed\<close> with non-empty content.
\<close>

definition passes_filter :: "chunk \<Rightarrow> bool" where
  "passes_filter c =
     (case c of
        NotRunResponse \<Rightarrow> False
      | Response r \<Rightarrow>
          (case event r of
             run_started \<Rightarrow> True
           | tool_call_started \<Rightarrow>
               (case tools r of
                  None \<Rightarrow> False
                | Some ts \<Rightarrow>
                    ts \<noteq> [] \<and>
                    (case (last ts) (py ''function_name'') of
                       None \<Rightarrow> False
                     | Some function_name \<Rightarrow>
                         startswith function_name (py ''transfer_task_to_'')))
           | tool_call_completed \<Rightarrow> truthy (RunResponse.content r)
           | _ \<Rightarrow> False))"

fun is_run_completed :: "chunk \<Rightarrow> bool" where
  "is_run_completed (Response r) = (event r = run_completed)"
| "is_run_completed NotRunResponse = False"

text \<open>The string delta a chunk carries: the content of a \<open>run_response\<close> event when it
  is a string, nothing otherwise.\<close>

fun delta :: "chunk \<Rightarrow> pystr" where
  "delta (Response r) =
     (if event r = run_response
      then (case RunResponse.content r of PyStr s \<Rightarrow> s | _ \<Rightarrow> [])
      else [])"
| "delta NotRunResponse = []"

definition below_one :: "ui_call list \<Rightarrow> bool" where
  "below_one calls =
     (\<forall>p. st_progress p \<in> set calls \<or> progress_bar_progress p \<in> set calls \<longrightarrow> p < 1)"

section \<open>Sample events and streams\<close>

text \<open>Concrete inputs on which the properties below are checked.\<close>

definition response :: "RunEvent \<Rightarrow> pyval \<Rightarrow> tool list option \<Rightarrow> RunResponse" where
  "response e c ts = \<lparr>event = e, content = c, run_id = Some (py ''run-1''), tools = ts\<rparr>"

definition delegation_tool :: tool where
  "delegation_tool = [py ''function_name'' \<mapsto> py ''transfer_task_to_incident_analyzer'']"

definition lookup_tool :: tool where
  "lookup_tool = [py ''function_name'' \<mapsto> py ''lookup_kb_article'']"

definition unfinished_stream :: "item list" where
  "unfinished_stream =
     [Yield (Response (response run_started PyNone None)),
      Yield (Response (response tool_call_started PyNone (Some [lookup_tool]))),
      Yield (Response (response tool_call_started PyNone (Some [lookup_tool, delegation_tool]))),
      Yield NotRunResponse,
      Yield (Response (response tool_call_completed (PyStr []) None)),
      Yield (Response (response tool_call_completed (PyStr (py ''ticket analysed'')) None)),
      Yield (Response (response run_response (PyStr (py ''Report'')) None)),
      Yield (Response (response other_event PyNone None))]"

definition finished_stream :: "item list" where
  "finished_stream =
     [Yield (Response (response run_started PyNone None)),
      Yield (Response (response tool_call_started PyNone (Some [delegation_tool]))),
      Yield (Response (response tool_call_completed (PyStr (py ''ticket analysed'')) None)),
      Yield (Response (response run_response (PyStr (py ''Report'')) None)),
      Yield (Response (response run_completed PyNone None)),
      Raise (Exception (py ''connection reset'')),
      Yield (Response (response run_completed PyNone None))]"

definition raising_stream :: "item list" where
  "raising_stream =
     [Yield (Response (response run_started PyNone None)),
      Raise (Exception (py ''connection reset''))]"

definition delegated_state :: run_state where
  "delegated_state =
     process initial_state (Response (response tool_call_started PyNone (Some [delegation_tool])))"

section \<open>Basic facts about the loop\<close>

lemmas branch_defs = on_run_started_def on_tool_call_started_def on_tool_call_completed_def
  on_run_response_def on_run_completed_def render_def

lemmas eval_defs = process_def branch_defs initial_state_def detect_agent_def keys_def
  get_agent_name_from_function_def agent_map_def startswith_def py_def Let_def

lemmas example_defs = response_def delegation_tool_def lookup_tool_def unfinished_stream_def
  finished_stream_def

lemma startswith_Nil: "startswith [] (py ''transfer_task_to_'') = False"
  by (simp add: startswith_def py_def)

lemma consume_pulled: "fst (consume st items) = foldl process st (pulled items)"
  by (induction st items rule: consume.induct) simp_all

lemma pulled_Yields: "pulled (map Yield cs) = cs"
  by (induction cs) simp_all

lemma pulled_append: "\<exists>zs. pulled (xs @ ys) = pulled xs @ zs"
  by (induction xs rule: pulled.induct) simp_all

lemma consume_append_Raise:
  "consume st (map Yield cs @ Raise e # rest) = (foldl process st cs, Some e)"
  by (induction cs arbitrary: st) simp_all

lemma process_full_content: "full_content (process st c) = full_content st @ delta c"
  by (cases c; cases "event (case c of Response r \<Rightarrow> r)")
     (auto simp: process_def branch_defs Let_def split: option.splits pyval.splits)

lemma foldl_full_content:
  "full_content (foldl process st cs) = full_content st @ concat (map delta cs)"
  by (induction cs arbitrary: st) (simp_all add: process_full_content)

lemma process_steps_append:
  "\<exists>new. execution_steps (process st c) = execution_steps st @ new \<and> length new \<le> 1"
  by (cases c; cases "event (case c of Response r \<Rightarrow> r)")
     (auto simp: process_def branch_defs Let_def split: option.splits pyval.splits)

lemma foldl_steps_prefix:
  "prefix (execution_steps st) (execution_steps (foldl process st cs))"
proof (induction cs arbitrary: st)
  case Nil
  show ?case by simp
next
  case (Cons c cs)
  obtain new where "execution_steps (process st c) = execution_steps st @ new"
    using process_steps_append by blast
  then have "prefix (execution_steps st) (execution_steps (process st c))"
    by simp
  with Cons.IH [of "process st c"] show ?case
    by (auto intro: prefix_order.trans)
qed

lemma foldl_content_prefix:
  "prefix (full_content st) (full_content (foldl process st cs))"
  by (simp add: foldl_full_content)



lemma process_steps_length:
  "\<not> is_run_completed c \<Longrightarrow>
   length (execution_steps (process st c)) =
     length (execution_steps st) + (if passes_filter c then 1 else 0)"
  by (cases c; cases "event (case c of Response r \<Rightarrow> r)")
     (auto simp: process_def branch_defs passes_filter_def Let_def startswith_Nil
           split: option.splits pyval.splits)

lemma process_below_one:
  "\<not> is_run_completed c \<Longrightarrow> below_one (ui st) \<Longrightarrow> below_one (ui (process st c))"
  by (cases c; cases "event (case c of Response r \<Rightarrow> r)")
     (auto simp: process_def branch_defs below_one_def Let_def min_def
           split: option.splits pyval.splits)

lemma foldl_unfinished:
  "\<forall>c \<in> set cs. \<not> is_run_completed c \<Longrightarrow> below_one (ui st) \<Longrightarrow>
   length (execution_steps (foldl process st cs)) =
     length (execution_steps st) + length (filter passes_filter cs)
   \<and> below_one (ui (foldl process st cs))"
proof (induction cs arbitrary: st)
  case Nil
  then show ?case by simp
next
  case (Cons c cs)
  have c: "\<not> is_run_completed c" and cs: "\<forall>c \<in> set cs. \<not> is_run_completed c"
    using Cons.prems(1) by simp_all
  have "below_one (ui (process st c))"
    using c Cons.prems(2) by (rule process_below_one)
  with Cons.IH [of "process st c"] cs process_steps_length [OF c, of st]
  show ?case by simp
qed

lemma known_target_startswith:
  "function_name \<in> fst ` set agent_map \<Longrightarrow>
     function_name \<noteq> [] \<and> startswith function_name (py ''transfer_task_to_'')"
  by (auto simp: agent_map_def startswith_def py_def)

lemma agent_map_lookup: "(n, l) \<in> set agent_map \<Longrightarrow> map_of agent_map n = Some l"
proof -
  have "distinct (map fst agent_map)"
    by (simp add: agent_map_def py_def)
  then show "(n, l) \<in> set agent_map \<Longrightarrow> map_of agent_map n = Some l"
    by (rule map_of_is_SomeI)
qed

lemma unknown_name_generic:
  "function_name \<notin> fst ` set agent_map \<Longrightarrow>
     get_agent_name_from_function function_name = 0x1F916 # py '' Agent''"
proof -
  assume "function_name \<notin> fst ` set agent_map"
  then have "map_of agent_map function_name = None"
    by (simp add: map_of_eq_None_iff)
  then show ?thesis
    by (simp add: get_agent_name_from_function_def)
qed

lemma known_name_label:
  "(function_name, label) \<in> set agent_map \<Longrightarrow>
     get_agent_name_from_function function_name = label"
proof -
  assume "(function_name, label) \<in> set agent_map"
  then have "map_of agent_map function_name = Some label"
    by (rule agent_map_lookup)
  then show ?thesis
    by (simp add: get_agent_name_from_function_def)
qed

lemma label_nonempty: "get_agent_name_from_function function_name \<noteq> []"
  by (auto simp: get_agent_name_from_function_def agent_map_def split: option.splits if_splits)

lemma first_key_only:
  "key \<in> set ks \<Longrightarrow> isin key s \<Longrightarrow> \<forall>k \<in> set ks. k \<noteq> key \<longrightarrow> \<not> isin k s \<Longrightarrow>
   first_key ks s = Some (get_agent_name_from_function (py ''transfer_task_to_'' @ key))"
  by (induction ks) auto

lemma key_is_known_target:
  "key \<in> set keys \<Longrightarrow>
     map_of agent_map (py ''transfer_task_to_'' @ key) =
       Some (get_agent_name_from_function (py ''transfer_task_to_'' @ key))"
  by (auto simp: keys_def get_agent_name_from_function_def agent_map_def py_def)

lemma dropWhile_all_iff: "(\<forall>x \<in> set (dropWhile P xs). P x) \<longleftrightarrow> (\<forall>x \<in> set xs. P x)"
proof
  assume all: "\<forall>x \<in> set (dropWhile P xs). P x"
  have "dropWhile P xs = []"
  proof (rule ccontr)
    assume ne: "dropWhile P xs \<noteq> []"
    then have "\<not> P (hd (dropWhile P xs))"
      by (rule hd_dropWhile)
    moreover have "hd (dropWhile P xs) \<in> set (dropWhile P xs)"
      using ne by simp
    ultimately show False
      using all by blast
  qed
  then show "\<forall>x \<in> set xs. P x"
    by (simp add: dropWhile_eq_Nil_conv)
next
  assume "\<forall>x \<in> set xs. P x"
  then show "\<forall>x \<in> set (dropWhile P xs). P x"
    by (auto dest: set_dropWhileD)
qed

lemma strip_empty_iff: "strip s = [] \<longleftrightarrow> (\<forall>c \<in> set s. isspace c)"
  by (simp add: strip_def dropWhile_eq_Nil_conv dropWhile_all_iff)

section \<open>The agent label of a completion step\<close>

text \<open>
  C1, for content that holds the delegation prefix. When a \<open>tool_call_completed\<close> event has a non-empty string content that
  contains the delegation prefix \<open>transfer_task_to_\<close> and exactly one of the five
  keywords, the success step that is appended carries the label mapped from that keyword
  (followed by \<open> - Completed\<close>), whatever agent was remembered before. The keys are only
  looked for once the prefix has been found in the content.
\<close>

theorem completed_label_from_keyword:
  assumes "event r = tool_call_completed"
    and "RunResponse.content r = PyStr s" and "s \<noteq> []"
    and "isin (py ''transfer_task_to_'') s"
    and "key \<in> set keys" and "isin key s"
    and "\<forall>k \<in> set keys. k \<noteq> key \<longrightarrow> \<not> isin k s"
  shows "execution_steps (process st (Response r)) =
           execution_steps st @
             [\<lparr>icon = [0x2705],
               title = get_agent_name_from_function (py ''transfer_task_to_'' @ key)
                         @ py '' - Completed'',
               content = s, type = success\<rparr>]
         \<and> map_of agent_map (py ''transfer_task_to_'' @ key)
             = Some (get_agent_name_from_function (py ''transfer_task_to_'' @ key))"
proof
  have "detect_agent s = Some (get_agent_name_from_function (py ''transfer_task_to_'' @ key))"
    using assms(4-7) by (simp add: detect_agent_def first_key_only)
  then show "execution_steps (process st (Response r)) =
           execution_steps st @
             [\<lparr>icon = [0x2705],
               title = get_agent_name_from_function (py ''transfer_task_to_'' @ key)
                         @ py '' - Completed'',
               content = s, type = success\<rparr>]"
    using assms(1-3)
    by (simp add: process_def on_tool_call_completed_def render_def Let_def label_nonempty)
  show "map_of agent_map (py ''transfer_task_to_'' @ key)
             = Some (get_agent_name_from_function (py ''transfer_task_to_'' @ key))"
    using assms(5) by (rule key_is_known_target)
qed

theorem completed_label_from_keyword_witness:
  "event (response tool_call_completed
            (PyStr (py ''transfer_task_to_ticket_creation: ticket filed'')) None)
     = tool_call_completed
   \<and> isin (py ''transfer_task_to_'') (py ''transfer_task_to_ticket_creation: ticket filed'')
   \<and> py ''ticket_creation'' \<in> set keys
   \<and> isin (py ''ticket_creation'') (py ''transfer_task_to_ticket_creation: ticket filed'')
   \<and> \<not> isin (py ''task_analyzer'') (py ''transfer_task_to_ticket_creation: ticket filed'')
   \<and> \<not> isin (py ''incident_analyzer'') (py ''transfer_task_to_ticket_creation: ticket filed'')
   \<and> \<not> isin (py ''root_cause_analysis'') (py ''transfer_task_to_ticket_creation: ticket filed'')
   \<and> \<not> isin (py ''resolution_discovery'')
         (py ''transfer_task_to_ticket_creation: ticket filed'')
   \<and> current_agent delegated_state = Some (0x1F50D # py '' Incident Analyzer'')
   \<and> execution_steps (process delegated_state
        (Response (response tool_call_completed
            (PyStr (py ''transfer_task_to_ticket_creation: ticket filed'')) None)))
     = execution_steps delegated_state @
         [\<lparr>icon = [0x2705], title = 0x1F3AB # py '' Ticket Creation - Completed'',
           content = py ''transfer_task_to_ticket_creation: ticket filed'', type = success\<rparr>]"
proof -
  have h: "event (response tool_call_completed
            (PyStr (py ''transfer_task_to_ticket_creation: ticket filed'')) None)
     = tool_call_completed"
    "RunResponse.content (response tool_call_completed
            (PyStr (py ''transfer_task_to_ticket_creation: ticket filed'')) None)
     = PyStr (py ''transfer_task_to_ticket_creation: ticket filed'')"
    "py ''transfer_task_to_ticket_creation: ticket filed'' \<noteq> []"
    "isin (py ''transfer_task_to_'') (py ''transfer_task_to_ticket_creation: ticket filed'')"
    "py ''ticket_creation'' \<in> set keys"
    "isin (py ''ticket_creation'') (py ''transfer_task_to_ticket_creation: ticket filed'')"
    "\<forall>k \<in> set keys. k \<noteq> py ''ticket_creation'' \<longrightarrow>
          \<not> isin k (py ''transfer_task_to_ticket_creation: ticket filed'')"
    by (simp_all add: response_def keys_def startswith_def py_def)
  have d: "current_agent delegated_state = Some (0x1F50D # py '' Incident Analyzer'')"
    by (simp add: delegated_state_def example_defs eval_defs)
  have l: "get_agent_name_from_function (py ''transfer_task_to_'' @ py ''ticket_creation'')
            @ py '' - Completed'' = 0x1F3AB # py '' Ticket Creation - Completed''"
    by (simp add: get_agent_name_from_function_def agent_map_def py_def)
  have o: "\<not> isin (py ''task_analyzer'') (py ''transfer_task_to_ticket_creation: ticket filed'')"
    "\<not> isin (py ''incident_analyzer'') (py ''transfer_task_to_ticket_creation: ticket filed'')"
    "\<not> isin (py ''root_cause_analysis'') (py ''transfer_task_to_ticket_creation: ticket filed'')"
    "\<not> isin (py ''resolution_discovery'') (py ''transfer_task_to_ticket_creation: ticket filed'')"
    by (simp_all add: startswith_def py_def)
  from completed_label_from_keyword [OF h, of delegated_state] h(1,4,5,6) o d l show ?thesis
    by simp
qed

text \<open>
  C1 without the prefix does not hold: the content \<open>ticket_creation finished\<close>
  contains exactly one keyword but not the delegation prefix, so no agent is detected;
  the step is labelled with the remembered agent (here the incident analyzer), and with
  the generic label when none is remembered.
\<close>

theorem completed_label_counterexample:
  "event (response tool_call_completed (PyStr (py ''ticket_creation finished'')) None)
     = tool_call_completed
   \<and> RunResponse.content
        (response tool_call_completed (PyStr (py ''ticket_creation finished'')) None)
     = PyStr (py ''ticket_creation finished'')
   \<and> py ''ticket_creation finished'' \<noteq> []
   \<and> isin (py ''ticket_creation'') (py ''ticket_creation finished'')
   \<and> \<not> isin (py ''task_analyzer'') (py ''ticket_creation finished'')
   \<and> \<not> isin (py ''incident_analyzer'') (py ''ticket_creation finished'')
   \<and> \<not> isin (py ''root_cause_analysis'') (py ''ticket_creation finished'')
   \<and> \<not> isin (py ''resolution_discovery'') (py ''ticket_creation finished'')
   \<and> get_agent_name_from_function (py ''transfer_task_to_ticket_creation'')
     = 0x1F3AB # py '' Ticket Creation''
   \<and> current_agent delegated_state = Some (0x1F50D # py '' Incident Analyzer'')
   \<and> execution_steps (process delegated_state
        (Response (response tool_call_completed (PyStr (py ''ticket_creation finished'')) None)))
     = execution_steps delegated_state @
         [\<lparr>icon = [0x2705], title = 0x1F50D # py '' Incident Analyzer - Completed'',
           content = py ''ticket_creation finished'', type = success\<rparr>]
   \<and> execution_steps (process initial_state
        (Response (response tool_call_completed (PyStr (py ''ticket_creation finished'')) None)))
     = [\<lparr>icon = [0x2705], title = 0x1F916 # py '' Agent - Completed'',
         content = py ''ticket_creation finished'', type = success\<rparr>]"
  by (simp add: delegated_state_def example_defs eval_defs)

section \<open>Steps and progress of a run that has not completed\<close>

text \<open>
  C2. For a stream in which no \<open>run_completed\<close> event is received, the step list built
  from the initial state has as many entries as there are received chunks passing the
  filters of the contract, and every value ever given to the progress bar is below 1.
  Progress values are modelled as exact fractions.
\<close>

theorem step_count_matches_filters_and_progress_below_one:
  assumes "\<forall>r. Response r \<in> set (pulled items) \<longrightarrow> event r \<noteq> run_completed"
  shows "length (execution_steps (fst (consume initial_state items))) =
           length (filter passes_filter (pulled items))
         \<and> (\<forall>p. st_progress p \<in> set (ui (fst (consume initial_state items)))
                 \<or> progress_bar_progress p \<in> set (ui (fst (consume initial_state items)))
               \<longrightarrow> p < 1)"
proof -
  have none: "\<forall>c \<in> set (pulled items). \<not> is_run_completed c"
  proof
    fix c assume "c \<in> set (pulled items)"
    with assms show "\<not> is_run_completed c" by (cases c) auto
  qed
  have start: "below_one (ui initial_state)" "execution_steps initial_state = []"
    by (simp_all add: below_one_def initial_state_def)
  from foldl_unfinished [OF none start(1)] start(2) show ?thesis
    by (simp add: consume_pulled below_one_def)
qed

theorem step_count_matches_filters_and_progress_below_one_witness:
  "filter is_run_completed (pulled unfinished_stream) = []
   \<and> length (execution_steps (fst (consume initial_state unfinished_stream))) = 3
   \<and> length (filter passes_filter (pulled unfinished_stream)) = 3
   \<and> progress_bar_progress (3 / 10) \<in> set (ui (fst (consume initial_state unfinished_stream)))
   \<and> progress_bar_progress 1 \<notin> set (ui (fst (consume initial_state unfinished_stream)))"
proof -
  have h: "\<forall>r. Response r \<in> set (pulled unfinished_stream) \<longrightarrow> event r \<noteq> run_completed"
    by (auto simp: example_defs)
  have c: "filter is_run_completed (pulled unfinished_stream) = []"
    by (simp add: example_defs)
  have n: "length (filter passes_filter (pulled unfinished_stream)) = 3"
    by (simp add: example_defs passes_filter_def startswith_def py_def)
  have p: "progress_bar_progress (3 / 10) \<in> set (ui (fst (consume initial_state unfinished_stream)))"
    by (simp add: example_defs eval_defs)
  note t = step_count_matches_filters_and_progress_below_one [OF h]
  from t have "progress_bar_progress 1 \<notin> set (ui (fst (consume initial_state unfinished_stream)))"
    by force
  with t c n p show ?thesis
    by simp
qed

section \<open>The accumulated content buffer\<close>

text \<open>
  C3. After the loop has run over a stream, the accumulated content buffer is the
  concatenation, in arrival order, of the string deltas of the \<open>run_response\<close> events
  it received; an event of any other kind leaves the buffer as it was.
\<close>

theorem buffer_is_concatenation_of_deltas:
  "full_content (fst (consume initial_state items)) = concat (map delta (pulled items))
   \<and> (event r \<noteq> run_response \<longrightarrow>
        full_content (process st (Response r)) = full_content st)"
proof
  have "full_content initial_state = []"
    by (simp add: initial_state_def)
  then show "full_content (fst (consume initial_state items)) = concat (map delta (pulled items))"
    by (simp add: consume_pulled foldl_full_content)
next
  show "event r \<noteq> run_response \<longrightarrow> full_content (process st (Response r)) = full_content st"
    by (simp add: process_full_content)
qed

theorem buffer_is_concatenation_of_deltas_witness:
  "full_content (fst (consume initial_state
      [Yield (Response \<lparr>event = run_response, content = PyStr (py ''ab''),
                        run_id = None, tools = None\<rparr>),
       Yield (Response \<lparr>event = run_started, content = PyStr (py ''zz''),
                        run_id = None, tools = None\<rparr>),
       Yield (Response \<lparr>event = run_response, content = PyNone,
                        run_id = None, tools = None\<rparr>),
       Yield (Response \<lparr>event = run_response, content = PyStr (py ''cd''),
                        run_id = None, tools = None\<rparr>),
       Raise (Exception (py ''closed'')),
       Yield (Response \<lparr>event = run_response, content = PyStr (py ''ef''),
                        run_id = None, tools = None\<rparr>)]))
     = py ''abcd''
   \<and> run_started \<noteq> run_response
   \<and> full_content (process initial_state
        (Response \<lparr>event = run_started, content = PyStr (py ''zz''),
                    run_id = None, tools = None\<rparr>)) = full_content initial_state"
  using buffer_is_concatenation_of_deltas
    [of "[Yield (Response \<lparr>event = run_response, content = PyStr (py ''ab''),
                        run_id = None, tools = None\<rparr>),
       Yield (Response \<lparr>event = run_started, content = PyStr (py ''zz''),
                        run_id = None, tools = None\<rparr>),
       Yield (Response \<lparr>event = run_response, content = PyNone,
                        run_id = None, tools = None\<rparr>),
       Yield (Response \<lparr>event = run_response, content = PyStr (py ''cd''),
                        run_id = None, tools = None\<rparr>),
       Raise (Exception (py ''closed'')),
       Yield (Response \<lparr>event = run_response, content = PyStr (py ''ef''),
                        run_id = None, tools = None\<rparr>)]"
       "\<lparr>event = run_started, content = PyStr (py ''zz''), run_id = None, tools = None\<rparr>"
       initial_state]
  by (simp add: py_def)

section \<open>The title of a delegation step\<close>

text \<open>
  C4. For a \<open>tool_call_started\<close> event whose last tool names one of the five entries
  of \<open>agent_map\<close>, the step appended has the title \<open>Delegating to\<close> followed by the
  label of that entry, and that label becomes the current agent. The lookup returns the
  label of the entry for a known name and the generic label for every other name.
\<close>

theorem delegation_step_title:
  "(event r = tool_call_started \<and> tools r = Some ts \<and> ts \<noteq> []
      \<and> (last ts) (py ''function_name'') = Some function_name
      \<and> (function_name, label) \<in> set agent_map
    \<longrightarrow> execution_steps (process st (Response r)) =
          execution_steps st @
            [\<lparr>icon = [0x1F504], title = py ''Delegating to '' @ label,
              content = py ''Task transferred successfully'', type = delegation\<rparr>]
        \<and> current_agent (process st (Response r)) = Some label)
   \<and> ((function_name, label) \<in> set agent_map \<longrightarrow>
         get_agent_name_from_function function_name = label)
   \<and> (function_name \<notin> fst ` set agent_map \<longrightarrow>
         get_agent_name_from_function function_name = 0x1F916 # py '' Agent'')"
proof (intro conjI impI)
  assume a: "(function_name, label) \<in> set agent_map"
  then show "get_agent_name_from_function function_name = label"
    by (rule known_name_label)
next
  assume "function_name \<notin> fst ` set agent_map"
  then show "get_agent_name_from_function function_name = 0x1F916 # py '' Agent''"
    by (rule unknown_name_generic)
next
  assume a: "event r = tool_call_started \<and> tools r = Some ts \<and> ts \<noteq> []
      \<and> (last ts) (py ''function_name'') = Some function_name
      \<and> (function_name, label) \<in> set agent_map"
  then have "function_name \<in> fst ` set agent_map"
    by force
  then have p: "function_name \<noteq> []" "startswith function_name (py ''transfer_task_to_'')"
    using known_target_startswith by simp_all
  have l: "get_agent_name_from_function function_name = label"
    using a by (simp add: known_name_label)
  show "execution_steps (process st (Response r)) =
          execution_steps st @
            [\<lparr>icon = [0x1F504], title = py ''Delegating to '' @ label,
              content = py ''Task transferred successfully'', type = delegation\<rparr>]"
    using a p l by (simp add: process_def on_tool_call_started_def render_def Let_def)
  show "current_agent (process st (Response r)) = Some label"
    using a p l by (simp add: process_def on_tool_call_started_def render_def Let_def)
qed

theorem delegation_step_title_witness:
  "event (response tool_call_started PyNone (Some [lookup_tool, delegation_tool]))
     = tool_call_started
   \<and> tools (response tool_call_started PyNone (Some [lookup_tool, delegation_tool]))
     = Some [lookup_tool, delegation_tool]
   \<and> (last [lookup_tool, delegation_tool]) (py ''function_name'')
     = Some (py ''transfer_task_to_incident_analyzer'')
   \<and> (py ''transfer_task_to_incident_analyzer'', 0x1F50D # py '' Incident Analyzer'')
       \<in> set agent_map
   \<and> execution_steps (process initial_state
        (Response (response tool_call_started PyNone (Some [lookup_tool, delegation_tool]))))
     = [\<lparr>icon = [0x1F504],
         title = py ''Delegating to '' @ 0x1F50D # py '' Incident Analyzer'',
         content = py ''Task transferred successfully'', type = delegation\<rparr>]
   \<and> get_agent_name_from_function (py ''transfer_task_to_incident_analyzer'')
     = 0x1F50D # py '' Incident Analyzer''
   \<and> py ''transfer_task_to_billing'' \<notin> fst ` set agent_map
   \<and> get_agent_name_from_function (py ''transfer_task_to_billing'') = 0x1F916 # py '' Agent''"
proof -
  have h: "event (response tool_call_started PyNone (Some [lookup_tool, delegation_tool]))
     = tool_call_started"
    "tools (response tool_call_started PyNone (Some [lookup_tool, delegation_tool]))
     = Some [lookup_tool, delegation_tool]"
    "(last [lookup_tool, delegation_tool]) (py ''function_name'')
     = Some (py ''transfer_task_to_incident_analyzer'')"
    "(py ''transfer_task_to_incident_analyzer'', 0x1F50D # py '' Incident Analyzer'')
       \<in> set agent_map"
    "py ''transfer_task_to_billing'' \<notin> fst ` set agent_map"
    "execution_steps initial_state = []"
    by (simp_all add: example_defs agent_map_def initial_state_def py_def)
  from delegation_step_title
    [where r = "response tool_call_started PyNone (Some [lookup_tool, delegation_tool])"
       and ts = "[lookup_tool, delegation_tool]"
       and function_name = "py ''transfer_task_to_incident_analyzer''"
       and label = "0x1F50D # py '' Incident Analyzer''" and st = initial_state]
     delegation_step_title
    [where function_name = "py ''transfer_task_to_billing''"] h
  show ?thesis by simp
qed

section \<open>Tool calls that are not delegations\<close>

text \<open>
  C5. A \<open>tool_call_started\<close> event whose function name does not begin with the
  delegation prefix changes nothing but the remembered run id: no step is appended, and
  the current agent, the content buffer, the step counter and the calls made on the
  presentation framework stay as they were.
\<close>

theorem non_delegation_tool_call_ignored:
  assumes "event r = tool_call_started"
    and "tools r = Some ts" and "ts \<noteq> []"
    and "(last ts) (py ''function_name'') = Some function_name"
    and "\<not> startswith function_name (py ''transfer_task_to_'')"
  shows "process st (Response r) = st\<lparr>run_id := RunResponse.run_id r\<rparr>
         \<and> execution_steps (process st (Response r)) = execution_steps st
         \<and> current_agent (process st (Response r)) = current_agent st
         \<and> full_content (process st (Response r)) = full_content st
         \<and> step_count (process st (Response r)) = step_count st
         \<and> ui (process st (Response r)) = ui st"
  using assms by (simp add: process_def on_tool_call_started_def Let_def)

theorem non_delegation_tool_call_ignored_witness:
  "event (response tool_call_started PyNone (Some [lookup_tool])) = tool_call_started
   \<and> tools (response tool_call_started PyNone (Some [lookup_tool])) = Some [lookup_tool]
   \<and> [lookup_tool] \<noteq> []
   \<and> (last [lookup_tool]) (py ''function_name'') = Some (py ''lookup_kb_article'')
   \<and> \<not> startswith (py ''lookup_kb_article'') (py ''transfer_task_to_'')
   \<and> current_agent delegated_state = Some (0x1F50D # py '' Incident Analyzer'')
   \<and> current_agent (process delegated_state
        (Response (response tool_call_started PyNone (Some [lookup_tool]))))
       = Some (0x1F50D # py '' Incident Analyzer'')
   \<and> execution_steps (process delegated_state
        (Response (response tool_call_started PyNone (Some [lookup_tool]))))
       = execution_steps delegated_state
   \<and> length (execution_steps delegated_state) = 1"
proof -
  have h: "event (response tool_call_started PyNone (Some [lookup_tool])) = tool_call_started"
    "tools (response tool_call_started PyNone (Some [lookup_tool])) = Some [lookup_tool]"
    "[lookup_tool] \<noteq> []"
    "(last [lookup_tool]) (py ''function_name'') = Some (py ''lookup_kb_article'')"
    "\<not> startswith (py ''lookup_kb_article'') (py ''transfer_task_to_'')"
    by (simp_all add: example_defs startswith_def py_def)
  have d: "current_agent delegated_state = Some (0x1F50D # py '' Incident Analyzer'')"
    "length (execution_steps delegated_state) = 1"
    by (simp_all add: delegated_state_def example_defs eval_defs)
  from non_delegation_tool_call_ignored [OF h, of delegated_state] h d show ?thesis
    by simp
qed

section \<open>Blank submissions\<close>

text \<open>
  C6. When the subject and the body both consist of whitespace only (or are empty), the
  handler shows a warning and stops: the agent is not run and no step exists. When one of
  them has a character that is not whitespace, the agent is run once on the combined
  prompt and the loop consumes its stream.
\<close>

theorem blank_submission_rejected:
  "((\<forall>c \<in> set email_subject. isspace c) \<and> (\<forall>c \<in> set email_body. isspace c) \<longrightarrow>
      run_button Sister_run email_from email_subject email_body =
        \<lparr>agent_runs = [], locals = None,
         screen = [st_warning ([0x26A0, 0xFE0F] @ py '' Please enter incident details''),
                   st_stop]\<rparr>)
   \<and> (\<not> ((\<forall>c \<in> set email_subject. isspace c) \<and> (\<forall>c \<in> set email_body. isspace c)) \<longrightarrow>
        agent_runs (run_button Sister_run email_from email_subject email_body) =
          [user_input email_from email_subject email_body]
        \<and> locals (run_button Sister_run email_from email_subject email_body) =
            Some (fst (consume initial_state
                    (Sister_run (user_input email_from email_subject email_body)))))"
proof (intro conjI impI)
  assume "(\<forall>c \<in> set email_subject. isspace c) \<and> (\<forall>c \<in> set email_body. isspace c)"
  then have "strip email_subject = [] \<and> strip email_body = []"
    by (simp add: strip_empty_iff)
  then show "run_button Sister_run email_from email_subject email_body =
        \<lparr>agent_runs = [], locals = None,
         screen = [st_warning ([0x26A0, 0xFE0F] @ py '' Please enter incident details''),
                   st_stop]\<rparr>"
    by (simp add: run_button_def)
next
  assume "\<not> ((\<forall>c \<in> set email_subject. isspace c) \<and> (\<forall>c \<in> set email_body. isspace c))"
  then have n: "\<not> (strip email_subject = [] \<and> strip email_body = [])"
    by (simp add: strip_empty_iff)
  show "agent_runs (run_button Sister_run email_from email_subject email_body) =
          [user_input email_from email_subject email_body]"
    using n by (auto simp: run_button_def Let_def split: prod.splits option.splits)
  show "locals (run_button Sister_run email_from email_subject email_body) =
            Some (fst (consume initial_state
                    (Sister_run (user_input email_from email_subject email_body))))"
    using n by (auto simp: run_button_def Let_def split: prod.splits option.splits)
qed

theorem blank_submission_rejected_witness:
  "strip [] = [] \<and> strip [0x20, 0x0A, 0xA0] = []
   \<and> run_button (\<lambda>prompt. finished_stream) (py ''user@itsm.com'') [] [0x20, 0x0A, 0xA0] =
        \<lparr>agent_runs = [], locals = None,
         screen = [st_warning ([0x26A0, 0xFE0F] @ py '' Please enter incident details''),
                   st_stop]\<rparr>
   \<and> strip (py ''Server down'') = py ''Server down''
   \<and> agent_runs (run_button (\<lambda>prompt. finished_stream) (py ''user@itsm.com'')
        (py ''Server down'') [])
      = [py ''reported by user@itsm.com Subject: Server down'' @ [0x0A, 0x0A]]
   \<and> locals (run_button (\<lambda>prompt. finished_stream) (py ''user@itsm.com'')
        (py ''Server down'') [])
      = Some (fst (consume initial_state finished_stream))"
proof -
  have h: "(\<forall>c \<in> set []. isspace c) \<and> (\<forall>c \<in> set [0x20, 0x0A, 0xA0]. isspace c)"
    "\<not> ((\<forall>c \<in> set (py ''Server down''). isspace c) \<and> (\<forall>c \<in> set []. isspace c))"
    by (simp_all add: isspace_def py_def)
  have w: "strip [] = []" "strip [0x20, 0x0A, 0xA0] = []"
    "strip (py ''Server down'') = py ''Server down''"
    by (simp_all add: strip_def isspace_def py_def)
  have u: "user_input (py ''user@itsm.com'') (py ''Server down'') []
      = py ''reported by user@itsm.com Subject: Server down'' @ [0x0A, 0x0A]"
    by (simp add: user_input_def py_def)
  from blank_submission_rejected
         [where email_subject = "[]" and email_body = "[0x20, 0x0A, 0xA0]"
            and Sister_run = "\<lambda>prompt. finished_stream" and email_from = "py ''user@itsm.com''"]
       blank_submission_rejected
         [where email_subject = "py ''Server down''" and email_body = "[]"
            and Sister_run = "\<lambda>prompt. finished_stream" and email_from = "py ''user@itsm.com''"]
       h u w
  show ?thesis by simp
qed

section \<open>A stream that raises\<close>

text \<open>
  When the stream raises after yielding the chunks \<open>cs\<close>, the loop stops there: the
  outcome is that of processing \<open>cs\<close> alone, whatever the stream would have held
  afterwards; \<open>empty()\<close> is called on the status container, the message and the
  exception itself are shown, and the agent has been run exactly once.
\<close>

lemma stream_exception_aborts_run:
  assumes "\<not> (strip email_subject = [] \<and> strip email_body = [])"
    and "Sister_run (user_input email_from email_subject email_body)
           = map Yield cs @ Raise e # rest"
  shows "run_button Sister_run email_from email_subject email_body =
           \<lparr>agent_runs = [user_input email_from email_subject email_body],
            locals = Some (fst (consume initial_state (map Yield cs))),
            screen = ui (fst (consume initial_state (map Yield cs))) @
                       [status_container_empty,
                        st_error (0x274C # py '' Error: '' @ exn_str e),
                        st_exception e]\<rparr>"
proof -
  have "consume initial_state (map Yield cs @ Raise e # rest)
          = (foldl process initial_state cs, Some e)"
    by (rule consume_append_Raise)
  moreover have "fst (consume initial_state (map Yield cs)) = foldl process initial_state cs"
    by (simp add: consume_pulled pulled_Yields)
  ultimately show ?thesis
    using assms by (simp add: run_button_def Let_def)
qed

text \<open>
  C7. On a stream that yields a \<open>run_started\<close> event and then raises, the handler runs
  the agent once, stops the loop and shows the message and the exception. The progress
  indicator is not cleared: after \<open>status_container.empty()\<close> the status container
  still holds the progress bar at one tenth and the status text, next to one new empty
  placeholder.
\<close>

theorem progress_indicator_not_cleared_on_exception:
  "agent_runs (run_button (\<lambda>prompt. raising_stream) (py ''user@itsm.com'') (py ''Server down'') [])
     = [user_input (py ''user@itsm.com'') (py ''Server down'') []]
   \<and> drop 5 (screen
        (run_button (\<lambda>prompt. raising_stream) (py ''user@itsm.com'') (py ''Server down'') []))
     = [status_container_empty,
        st_error (0x274C # py '' Error: connection reset''),
        st_exception (Exception (py ''connection reset''))]
   \<and> status_container_after (screen
        (run_button (\<lambda>prompt. raising_stream) (py ''user@itsm.com'') (py ''Server down'') []))
     = \<lparr>bar = Some (1 / 10),
        status = Some (0x1F680 # py '' Orchestrator analyzing request''),
        placeholders = 1\<rparr>"
proof -
  have nonblank: "\<not> (strip (py ''Server down'') = [] \<and> strip [] = [])"
    by (simp add: strip_def isspace_def py_def)
  have run: "consume initial_state raising_stream =
      (process initial_state (Response (response run_started PyNone None)),
       Some (Exception (py ''connection reset'')))"
    by (simp add: raising_stream_def)
  have calls: "ui (process initial_state (Response (response run_started PyNone None))) =
      [st_progress 0,
       st_markdown (py ''## '' @ 0x1F4CB # py '' Execution Steps''),
       progress_bar_progress (1 / 10),
       status_text_info (0x1F680 # py '' Orchestrator analyzing request''),
       steps_render
         [\<lparr>icon = [0x1F680], title = py ''Orchestrator Started'',
           content = py ''Analyzing incident and determining workflow'', type = info\<rparr>]]"
    by (simp add: response_def process_def on_run_started_def render_def initial_state_def)
  have msg: "py '' Error: '' @ py ''connection reset'' = py '' Error: connection reset''"
    by (simp add: py_def)
  show ?thesis
    using nonblank
    by (simp add: run_button_def Let_def run calls msg status_container_after_def)
qed

section \<open>The buffer and the step list only grow\<close>

text \<open>
  C8. The content buffer and the step list reached after a part of a stream are prefixes
  of those reached after any continuation of it, so both are only ever extended at the
  end; one event appends at most one step.
\<close>

theorem buffer_and_steps_only_grow:
  "prefix (full_content (fst (consume st xs))) (full_content (fst (consume st (xs @ ys))))
   \<and> prefix (execution_steps (fst (consume st xs)))
        (execution_steps (fst (consume st (xs @ ys))))
   \<and> length (execution_steps (process st c)) \<le> length (execution_steps st) + 1"
proof (intro conjI)
  obtain zs where zs: "pulled (xs @ ys) = pulled xs @ zs"
    using pulled_append by blast
  show "prefix (full_content (fst (consume st xs))) (full_content (fst (consume st (xs @ ys))))"
    by (simp add: consume_pulled zs foldl_content_prefix)
  show "prefix (execution_steps (fst (consume st xs)))
          (execution_steps (fst (consume st (xs @ ys))))"
    by (simp add: consume_pulled zs foldl_steps_prefix)
  obtain new where "execution_steps (process st c) = execution_steps st @ new" "length new \<le> 1"
    using process_steps_append by blast
  then show "length (execution_steps (process st c)) \<le> length (execution_steps st) + 1"
    by simp
qed

theorem buffer_and_steps_only_grow_witness:
  "prefix (full_content (fst (consume initial_state (take 4 finished_stream))))
          (full_content (fst (consume initial_state (take 4 finished_stream @ drop 4 finished_stream))))
   \<and> full_content (fst (consume initial_state (take 4 finished_stream))) = py ''Report''
   \<and> prefix (execution_steps (fst (consume initial_state (take 2 finished_stream))))
        (execution_steps (fst (consume initial_state (take 2 finished_stream @ drop 2 finished_stream))))
   \<and> length (execution_steps (fst (consume initial_state (take 2 finished_stream)))) = 2
   \<and> length (execution_steps (fst (consume initial_state finished_stream))) = 4"
proof -
  have e: "full_content (fst (consume initial_state (take 4 finished_stream))) = py ''Report''"
    "length (execution_steps (fst (consume initial_state (take 2 finished_stream)))) = 2"
    "length (execution_steps (fst (consume initial_state finished_stream))) = 4"
    by (simp_all add: example_defs eval_defs)
  from buffer_and_steps_only_grow
         [where st = initial_state and xs = "take 4 finished_stream"
            and ys = "drop 4 finished_stream"]
       buffer_and_steps_only_grow
         [where st = initial_state and xs = "take 2 finished_stream"
            and ys = "drop 2 finished_stream"] e
  show ?thesis by simp
qed

section \<open>Only the last tool of an event is inspected\<close>

text \<open>
  C9. The effect of an event depends on its tools list only through the last element.
  In particular, when the last tool of a \<open>tool_call_started\<close> event has no function name
  or one without the delegation prefix, no step is appended and the current agent is
  kept, whatever the earlier tools are.
\<close>

theorem only_last_tool_inspected:
  "process st (Response (r\<lparr>tools := Some (earlier @ [t])\<rparr>)) =
     process st (Response (r\<lparr>tools := Some [t]\<rparr>))
   \<and> (event r = tool_call_started \<and> tools r = Some (earlier @ [t])
        \<and> (t (py ''function_name'') = None
             \<or> (\<exists>function_name. t (py ''function_name'') = Some function_name
                   \<and> \<not> startswith function_name (py ''transfer_task_to_'')))
       \<longrightarrow> process st (Response r) = st\<lparr>run_id := RunResponse.run_id r\<rparr>
           \<and> execution_steps (process st (Response r)) = execution_steps st
           \<and> current_agent (process st (Response r)) = current_agent st)"
proof
  show "process st (Response (r\<lparr>tools := Some (earlier @ [t])\<rparr>)) =
     process st (Response (r\<lparr>tools := Some [t]\<rparr>))"
    by (cases "event r") (simp_all add: process_def branch_defs Let_def)
next
  show "event r = tool_call_started \<and> tools r = Some (earlier @ [t])
        \<and> (t (py ''function_name'') = None
             \<or> (\<exists>function_name. t (py ''function_name'') = Some function_name
                   \<and> \<not> startswith function_name (py ''transfer_task_to_'')))
       \<longrightarrow> process st (Response r) = st\<lparr>run_id := RunResponse.run_id r\<rparr>
           \<and> execution_steps (process st (Response r)) = execution_steps st
           \<and> current_agent (process st (Response r)) = current_agent st"
    by (auto simp: process_def on_tool_call_started_def Let_def)
qed

theorem only_last_tool_inspected_witness:
  "event (response tool_call_started PyNone (Some ([delegation_tool] @ [lookup_tool])))
     = tool_call_started
   \<and> tools (response tool_call_started PyNone (Some ([delegation_tool] @ [lookup_tool])))
     = Some ([delegation_tool] @ [lookup_tool])
   \<and> lookup_tool (py ''function_name'') = Some (py ''lookup_kb_article'')
   \<and> \<not> startswith (py ''lookup_kb_article'') (py ''transfer_task_to_'')
   \<and> delegation_tool (py ''function_name'') = Some (py ''transfer_task_to_incident_analyzer'')
   \<and> startswith (py ''transfer_task_to_incident_analyzer'') (py ''transfer_task_to_'')
   \<and> execution_steps (process initial_state
        (Response (response tool_call_started PyNone (Some ([delegation_tool] @ [lookup_tool])))))
      = []
   \<and> current_agent (process initial_state
        (Response (response tool_call_started PyNone (Some ([delegation_tool] @ [lookup_tool])))))
      = None"
proof -
  have h: "event (response tool_call_started PyNone (Some ([delegation_tool] @ [lookup_tool])))
     = tool_call_started"
    "tools (response tool_call_started PyNone (Some ([delegation_tool] @ [lookup_tool])))
     = Some ([delegation_tool] @ [lookup_tool])"
    "lookup_tool (py ''function_name'') = Some (py ''lookup_kb_article'')"
    "\<not> startswith (py ''lookup_kb_article'') (py ''transfer_task_to_'')"
    "delegation_tool (py ''function_name'') = Some (py ''transfer_task_to_incident_analyzer'')"
    "startswith (py ''transfer_task_to_incident_analyzer'') (py ''transfer_task_to_'')"
    by (simp_all add: example_defs startswith_def py_def)
  have i: "execution_steps initial_state = []" "current_agent initial_state = None"
    by (simp_all add: initial_state_def)
  from only_last_tool_inspected
    [where st = initial_state
       and r = "response tool_call_started PyNone (Some ([delegation_tool] @ [lookup_tool]))"
       and earlier = "[delegation_tool]" and t = lookup_tool] h i
  show ?thesis by simp
qed

section \<open>The completion step is not counted\<close>



end
